theory Spec2Isabelle
  imports Complex_Main "HOL-Library.Multiset"
begin

section \<open>Data model of fields1e.py\<close>

text \<open>
  A charge is the Python tuple \<open>(q, cx, cy)\<close>: magnitude and position. The charge list is
  the module-level list \<open>charges\<close>, kept in insertion order.

  Numbers are Python floats (and the ints \<open>1\<close>, \<open>-1\<close> that \<open>onclick\<close> stores); they are
  embedded as exact reals, so every theorem below is about the exact arithmetic of the
  formulas the code evaluates, not about their rounding. The literal \<open>1e-20\<close> is
  \<open>1 / 10 ^ 20\<close>. The float values \<open>inf\<close> and \<open>nan\<close> have no counterpart here: the
  theorems are about finite coordinates and magnitudes.

  What depends on rounding is therefore not stated below. This concerns the boundary of
  the mask: the code compares \<open>sqrt(dx\<^sup>2 + dy\<^sup>2) + 1e-20\<close> with 0.22, and in float64 the
  addend is absorbed (\<open>0.22 + 1e-20 == 0.22\<close>), while over the reals it moves the
  threshold by \<open>1e-20\<close>. Which points at distance 0.22 are masked is a fact of float64
  arithmetic that the reals do not decide.

  A numpy array is the list of its elements in row-major order. The elementwise
  operations of numpy do not look at the shape beyond requiring that both operands have
  the same one, so the two coordinate arrays of a grid (the output of \<open>np.meshgrid\<close>)
  are two lists of one length; the theorems about a grid assume exactly that.
\<close>

type_synonym charge = "real \<times> real \<times> real"

type_synonym ndarray = "real list"

text \<open>A masked array (\<open>np.ma.MaskedArray\<close>): the data, and a flag per element that is
  True where the element is masked, that is, invalid.\<close>

record masked_array =
  data :: "real list"
  masked :: "bool list"

definition zeros_like :: "ndarray \<Rightarrow> ndarray" where
  "zeros_like a = replicate (length a) 0"

definition ones_like :: "ndarray \<Rightarrow> bool list" where
  "ones_like a = replicate (length a) True"

definition masked_where :: "bool list \<Rightarrow> ndarray \<Rightarrow> masked_array" where
  "masked_where condition a = \<lparr>data = a, masked = condition\<rparr>"

text \<open>\<open>np.hypot\<close>.\<close>

definition hypot :: "real \<Rightarrow> real \<Rightarrow> real" where
  "hypot a b = sqrt (a ^ 2 + b ^ 2)"

text \<open>\<open>int(v)\<close> on a float truncates toward zero; \<open>range(n)\<close> is empty for \<open>n \<le> 0\<close>.\<close>

definition py_int :: "real \<Rightarrow> int" where
  "py_int v = (if 0 \<le> v then \<lfloor>v\<rfloor> else \<lceil>v\<rceil>)"

definition py_range :: "int \<Rightarrow> int list" where
  "py_range n = map int [0..<nat n]"

text \<open>The exceptions the modelled code can raise.\<close>

datatype py_error = NameError | IndexError

text \<open>List indexing with an int: negative indices count from the end, anything outside
  \<open>[-n, n)\<close> raises IndexError. The result is the position in the list.\<close>

definition py_index :: "nat \<Rightarrow> int \<Rightarrow> py_error + nat" where
  "py_index n i =
     (if 0 \<le> i \<and> i < int n then Inr (nat i)
      else if - int n \<le> i \<and> i < 0 then Inr (nat (int n + i))
      else Inl IndexError)"

section \<open>\<open>compute_field\<close>\<close>

text \<open>The loop state of \<open>compute_field\<close>: the three accumulators \<open>Ex\<close>, \<open>Ey\<close>, \<open>V\<close> and
  \<open>mask\<close> (the fields carry a suffix: \<open>Ex\<close> and \<open>mask\<close> are constants of HOL).\<close>

record field_acc =
  Ex_arr :: ndarray
  Ey_arr :: ndarray
  V_arr :: ndarray
  mask_arr :: "bool list"

text \<open>
  One iteration of \<open>for charge in charges\<close> (lines 20 to 30):
  \<^verbatim>\<open>
      q, cx, cy = charge
      dx = x - cx
      dy = y - cy
      r = np.sqrt(dx**2 + dy**2) + 1e-20
      mask &= r > 0.22
      Ex += q * dx / (r**3)
      Ey += q * dy / (r**3)
      V += q / r
  \<close>
\<close>

definition field_step :: "ndarray \<Rightarrow> ndarray \<Rightarrow> field_acc \<Rightarrow> charge \<Rightarrow> field_acc" where
  "field_step x y acc charge =
     (case charge of (q, cx, cy) \<Rightarrow>
        let dx = map (\<lambda>v. v - cx) x;
            dy = map (\<lambda>v. v - cy) y;
            r = map (\<lambda>s. sqrt s + 1 / 10 ^ 20)
                  (map2 (+) (map (\<lambda>v. v ^ 2) dx) (map (\<lambda>v. v ^ 2) dy))
        in \<lparr>Ex_arr = map2 (+) (Ex_arr acc) (map2 (/) (map (\<lambda>v. q * v) dx) (map (\<lambda>v. v ^ 3) r)),
            Ey_arr = map2 (+) (Ey_arr acc) (map2 (/) (map (\<lambda>v. q * v) dy) (map (\<lambda>v. v ^ 3) r)),
            V_arr = map2 (+) (V_arr acc) (map (\<lambda>v. q / v) r),
            mask_arr = map2 (\<and>) (mask_arr acc) (map (\<lambda>v. v > 0.22) r)\<rparr>)"

definition field_init :: "ndarray \<Rightarrow> ndarray \<Rightarrow> field_acc" where
  "field_init x y =
     \<lparr>Ex_arr = zeros_like x, Ey_arr = zeros_like y, V_arr = zeros_like x, mask_arr = ones_like x\<rparr>"

definition field_loop :: "ndarray \<Rightarrow> ndarray \<Rightarrow> charge list \<Rightarrow> field_acc" where
  "field_loop x y cs = foldl (field_step x y) (field_init x y) cs"

text \<open>The whole function: the loop, then the three \<open>np.ma.masked_where(~mask, _)\<close>.\<close>

definition compute_field ::
  "ndarray \<Rightarrow> ndarray \<Rightarrow> charge list \<Rightarrow> masked_array \<times> masked_array \<times> masked_array" where
  "compute_field x y cs =
     (let acc = field_loop x y cs
      in (masked_where (map Not (mask_arr acc)) (Ex_arr acc),
          masked_where (map Not (mask_arr acc)) (Ey_arr acc),
          masked_where (map Not (mask_arr acc)) (V_arr acc)))"

text \<open>The three outputs by name.\<close>

definition out_Ex :: "masked_array \<times> masked_array \<times> masked_array \<Rightarrow> masked_array" where
  "out_Ex res = fst res"

definition out_Ey :: "masked_array \<times> masked_array \<times> masked_array \<Rightarrow> masked_array" where
  "out_Ey res = fst (snd res)"

definition out_V :: "masked_array \<times> masked_array \<times> masked_array \<Rightarrow> masked_array" where
  "out_V res = snd (snd res)"

subsection \<open>The specification's single-charge formulas\<close>

text \<open>
  These follow the words of the specification, not the code: the displacement
  \<open>(dx, dy) = (x - cx, y - cy)\<close>, the Euclidean distance, the padded distance
  \<open>r = sqrt(dx\<^sup>2 + dy\<^sup>2) + 1e-20\<close>, the field contribution \<open>(q\<cdot>dx/r\<^sup>3, q\<cdot>dy/r\<^sup>3)\<close> and the
  potential contribution \<open>q/r\<close> of one charge at one point \<open>(px, py)\<close>.
\<close>

definition euclid_dist :: "real \<Rightarrow> real \<Rightarrow> charge \<Rightarrow> real" where
  "euclid_dist px py c = (case c of (q, cx, cy) \<Rightarrow> sqrt ((px - cx) ^ 2 + (py - cy) ^ 2))"

definition coulomb_r :: "real \<Rightarrow> real \<Rightarrow> charge \<Rightarrow> real" where
  "coulomb_r px py c = euclid_dist px py c + 1 / 10 ^ 20"

definition field_contribution :: "real \<Rightarrow> real \<Rightarrow> charge \<Rightarrow> real \<times> real" where
  "field_contribution px py c =
     (case c of (q, cx, cy) \<Rightarrow>
        (q * (px - cx) / coulomb_r px py c ^ 3, q * (py - cy) / coulomb_r px py c ^ 3))"

definition potential_contribution :: "real \<Rightarrow> real \<Rightarrow> charge \<Rightarrow> real" where
  "potential_contribution px py c = (case c of (q, cx, cy) \<Rightarrow> q / coulomb_r px py c)"

section \<open>Program state and \<open>plot_field\<close>\<close>

text \<open>
  What \<open>plot_field\<close> puts on the figure, in drawing order. An artist records which
  matplotlib call was made and the arguments that are computed from the charge list in
  \<open>plot_field\<close> itself: the start points of the streamplot, and centre, radius and colour
  of a charge marker. The field arrays handed to \<open>streamplot\<close>, \<open>contour\<close> and \<open>imshow\<close>
  are the value of \<open>compute_field\<close> on the fixed grid and are not repeated here; what
  matplotlib does with its arguments is outside the program.
\<close>

datatype artist =
    Streamplot "(real \<times> real) list"
  | Contour
  | Imshow
  | Colorbar
  | Circle real real real string

text \<open>
  The module-level state: the globals \<open>charges\<close>, \<open>show_field_lines\<close>,
  \<open>show_equipotential_lines\<close>, \<open>show_equipotential_map\<close>, and the observable effects:
  the current figure, the number of calls of \<open>plot_field\<close> so far, and the file names
  passed to \<open>plt.savefig\<close>.
\<close>

record state =
  charges :: "charge list"
  show_field_lines :: bool
  show_equipotential_lines :: bool
  show_equipotential_map :: bool
  figure :: "artist list"
  renders :: nat
  saved :: "string list"

text \<open>
  The seed loop of \<open>plot_field\<close> (lines 101 to 110):
  \<^verbatim>\<open>
      start_points = []
      for charge in charges:
          num_field_lines = int(abs(charge[0]) * 16)
          cx, cy = charge[1], charge[2]
          radius = 0.35
          for i in range(num_field_lines):
              angle = 2 * np.pi * i / num_field_lines
              x_start = cx + radius * np.cos(angle)
              y_start = cy + radius * np.sin(angle)
              start_points.append([x_start, y_start])
  \<close>
\<close>

definition seed_append ::
  "real \<Rightarrow> real \<Rightarrow> int \<Rightarrow> (real \<times> real) list \<Rightarrow> int \<Rightarrow> (real \<times> real) list" where
  "seed_append cx cy num_field_lines start_points i =
     (let radius = 0.35;
          angle = 2 * pi * real_of_int i / real_of_int num_field_lines;
          x_start = cx + radius * cos angle;
          y_start = cy + radius * sin angle
      in start_points @ [(x_start, y_start)])"

definition seed_charge :: "(real \<times> real) list \<Rightarrow> charge \<Rightarrow> (real \<times> real) list" where
  "seed_charge start_points charge =
     (let num_field_lines = py_int (\<bar>fst charge\<bar> * 16);
          cx = fst (snd charge);
          cy = snd (snd charge)
      in foldl (seed_append cx cy num_field_lines) start_points (py_range num_field_lines))"

definition start_points :: "charge list \<Rightarrow> (real \<times> real) list" where
  "start_points cs = foldl seed_charge [] cs"

text \<open>
  \<open>plot_field\<close>: \<open>plt.clf()\<close>, then the streamplot if \<open>show_field_lines and
  len(start_points) > 0\<close>, the contours if \<open>show_equipotential_lines\<close>, the heat map and
  its colour bar if \<open>show_equipotential_map\<close>, and one circle of radius 0.2 per charge,
  \<open>'r'\<close> if \<open>q > 0\<close> else \<open>'b'\<close>.
\<close>

definition plot_field :: "state \<Rightarrow> state" where
  "plot_field st =
     (let sp = start_points (charges st);
          field_lines = (if show_field_lines st \<and> length sp > 0 then [Streamplot sp] else []);
          contours = (if show_equipotential_lines st then [Contour] else []);
          heat_map = (if show_equipotential_map st then [Imshow, Colorbar] else []);
          markers = map (\<lambda>charge. case charge of (q, cx, cy) \<Rightarrow>
                           Circle cx cy 0.2 (if q > 0 then ''r'' else ''b'')) (charges st)
      in st\<lparr>figure := field_lines @ contours @ heat_map @ markers,
             renders := Suc (renders st)\<rparr>)"

subsection \<open>The specification's seed generator\<close>

text \<open>
  After the words of the specification: a charge of magnitude \<open>m\<close> at \<open>(cx, cy)\<close> gets
  \<open>n = floor(16 \<times> |m|)\<close> seeds on the circle of radius 0.35 around it, at the angles
  \<open>2\<pi>\<cdot>i/n\<close> for \<open>i\<close> in \<open>[0, n)\<close>.
\<close>

definition seeds_of_charge :: "charge \<Rightarrow> (real \<times> real) list" where
  "seeds_of_charge c =
     (case c of (m, cx, cy) \<Rightarrow>
        map (\<lambda>i. (cx + 0.35 * cos (2 * pi * real i / real (nat \<lfloor>16 * \<bar>m\<bar>\<rfloor>)),
                  cy + 0.35 * sin (2 * pi * real i / real (nat \<lfloor>16 * \<bar>m\<bar>\<rfloor>))))
          [0..<nat \<lfloor>16 * \<bar>m\<bar>\<rfloor>])"

section \<open>Event handlers\<close>

text \<open>
  A matplotlib event, with the attributes the handlers read: \<open>inaxes\<close> (truthy or
  \<open>None\<close>), \<open>xdata\<close>, \<open>ydata\<close>, \<open>button\<close> (1 primary, 2 middle, 3 secondary) and \<open>key\<close>
  (\<open>None\<close> when no key is held).
\<close>

record event =
  inaxes :: bool
  xdata :: real
  ydata :: real
  button :: int
  key :: "string option"

text \<open>
  \<open>modify_charge_dialog(index)\<close>. \<open>new_q\<close> is what \<open>simpledialog.askfloat\<close> returns: a
  float, or \<open>None\<close> when the dialog is cancelled. \<open>charges[index][0]\<close> is read before the
  dialog opens, so a bad index raises IndexError first.
\<close>

definition modify_charge_dialog :: "real option \<Rightarrow> int \<Rightarrow> state \<Rightarrow> py_error + state" where
  "modify_charge_dialog new_q index st =
     (case py_index (length (charges st)) index of
        Inl err \<Rightarrow> Inl err
      | Inr k \<Rightarrow>
          (case new_q of
             Some v \<Rightarrow>
               Inr (plot_field (st\<lparr>charges :=
                      (charges st)[k := (v, fst (snd (charges st ! k)), snd (snd (charges st ! k)))]\<rparr>))
           | None \<Rightarrow> Inr (plot_field st)))"

text \<open>
  The search loop of \<open>onclick\<close> (lines 42 to 51) and the way it is left: through the
  \<open>del\<close> branch at index \<open>i\<close>, through the dialog branch at index \<open>i\<close>, or by running to
  the end of the list.
\<close>

datatype hit = Delete nat | Modify nat | NoHit

fun scan :: "event \<Rightarrow> nat \<Rightarrow> charge list \<Rightarrow> hit" where
  "scan e i [] = NoHit"
| "scan e i (charge # rest) =
     (case charge of (_, cx, cy) \<Rightarrow>
        if hypot (xdata e - cx) (ydata e - cy) < 0.3 then
          (if button e = 3 then Delete i
           else if button e = 1 \<and> key e = Some ''shift'' then Modify i
           else scan e (Suc i) rest)
        else scan e (Suc i) rest)"

text \<open>\<open>del charges[i]\<close> for an index of the list.\<close>

definition del_at :: "nat \<Rightarrow> 'a list \<Rightarrow> 'a list" where
  "del_at i xs = take i xs @ drop (Suc i) xs"

definition onclick :: "real option \<Rightarrow> event \<Rightarrow> state \<Rightarrow> py_error + state" where
  "onclick new_q e st =
     (if inaxes e then
        (case scan e 0 (charges st) of
           Delete i \<Rightarrow> Inr (plot_field (st\<lparr>charges := del_at i (charges st)\<rparr>))
         | Modify i \<Rightarrow> modify_charge_dialog new_q (int i) st
         | NoHit \<Rightarrow>
             if button e = 1 then
               Inr (plot_field (st\<lparr>charges := charges st @ [(1, xdata e, ydata e)]\<rparr>))
             else if button e = 3 then
               Inr (plot_field (st\<lparr>charges := charges st @ [(- 1, xdata e, ydata e)]\<rparr>))
             else Inr st)
      else Inr st)"

definition clear_charges :: "state \<Rightarrow> state" where
  "clear_charges st = plot_field (st\<lparr>charges := []\<rparr>)"

text \<open>
  Reading a name inside \<open>onkeypress\<close>: a local variable if there is one of that name,
  otherwise NameError. (The only name read this way is \<open>field_save\<close>, and neither the
  module nor the builtins bind it: the module binds \<open>np\<close>, \<open>plt\<close>, \<open>Circle\<close>, \<open>colors\<close>,
  \<open>tk\<close>, \<open>simpledialog\<close>, the three \<open>show_\<close> flags, the six functions, \<open>charges\<close>, \<open>fig\<close>
  and \<open>ax\<close>.)
\<close>

definition load_name :: "(string \<times> string) list \<Rightarrow> string \<Rightarrow> py_error + string" where
  "load_name local_vars name =
     (case map_of local_vars name of Some v \<Rightarrow> Inr v | None \<Rightarrow> Inl NameError)"

text \<open>
  \<open>onkeypress\<close> (lines 66 to 79); \<open>typed\<close> is the line that \<open>input("Save as?")\<close> returns.
  The branch for \<open>'s'\<close> is
  \<^verbatim>\<open>
      fields_save = input("Save as?")
      plt.savefig(field_save, format="jpg", dpi=1000)
  \<close>
  and \<open>clear_charges()\<close> already calls \<open>plot_field()\<close> before the final one.
\<close>

definition onkeypress :: "string \<Rightarrow> event \<Rightarrow> state \<Rightarrow> py_error + state" where
  "onkeypress typed e st =
     (if key e = Some ''1'' then
        Inr (plot_field (st\<lparr>show_field_lines := \<not> show_field_lines st\<rparr>))
      else if key e = Some ''2'' then
        Inr (plot_field (st\<lparr>show_equipotential_lines := \<not> show_equipotential_lines st\<rparr>))
      else if key e = Some ''c'' then
        Inr (plot_field (clear_charges st))
      else if key e = Some ''3'' then
        Inr (plot_field (st\<lparr>show_equipotential_map := \<not> show_equipotential_map st\<rparr>))
      else if key e = Some ''s'' then
        (let local_vars = [(''fields_save'', typed)]
         in case load_name local_vars ''field_save'' of
              Inl err \<Rightarrow> Inl err
            | Inr fname \<Rightarrow> Inr (plot_field (st\<lparr>saved := saved st @ [fname]\<rparr>)))
      else Inr (plot_field st))"

text \<open>The charge list after a handler has run, when it returned normally.\<close>

definition charges_after :: "py_error + state \<Rightarrow> charge list option" where
  "charges_after res = (case res of Inl err \<Rightarrow> None | Inr st \<Rightarrow> Some (charges st))"

text \<open>The hit test of \<open>onclick\<close> for one charge: the click is within 0.3 of it.\<close>

definition near_click :: "event \<Rightarrow> charge \<Rightarrow> bool" where
  "near_click e c = (case c of (q, cx, cy) \<Rightarrow> hypot (xdata e - cx) (ydata e - cy) < 0.3)"

section \<open>Properties of \<open>compute_field\<close>\<close>

lemma field_step_length:
  assumes "length x = length y" "length (Ex_arr acc) = length x" "length (Ey_arr acc) = length x"
    "length (V_arr acc) = length x" "length (mask_arr acc) = length x"
  shows "length (Ex_arr (field_step x y acc c)) = length x \<and>
         length (Ey_arr (field_step x y acc c)) = length x \<and>
         length (V_arr (field_step x y acc c)) = length x \<and>
         length (mask_arr (field_step x y acc c)) = length x"
  using assms by (cases c) (simp add: field_step_def Let_def)

lemma field_loop_snoc: "field_loop x y (cs @ [c]) = field_step x y (field_loop x y cs) c"
  by (simp add: field_loop_def)

lemma field_loop_length:
  assumes "length x = length y"
  shows "length (Ex_arr (field_loop x y cs)) = length x \<and>
         length (Ey_arr (field_loop x y cs)) = length x \<and>
         length (V_arr (field_loop x y cs)) = length x \<and>
         length (mask_arr (field_loop x y cs)) = length x"
proof (induction cs rule: rev_induct)
  case Nil
  show ?case using assms
    by (simp add: field_loop_def field_init_def zeros_like_def ones_like_def)
next
  case (snoc c cs)
  with field_step_length [OF assms, of "field_loop x y cs" c] show ?case
    by (simp add: field_loop_snoc)
qed

text \<open>One iteration at one grid point adds the charge's contributions and narrows the mask.\<close>

lemma field_step_nth:
  assumes "length x = length y" "length (Ex_arr acc) = length x" "length (Ey_arr acc) = length x"
    "length (V_arr acc) = length x" "length (mask_arr acc) = length x" "i < length x"
  shows "Ex_arr (field_step x y acc c) ! i =
           Ex_arr acc ! i + fst (field_contribution (x ! i) (y ! i) c)"
    and "Ey_arr (field_step x y acc c) ! i =
           Ey_arr acc ! i + snd (field_contribution (x ! i) (y ! i) c)"
    and "V_arr (field_step x y acc c) ! i =
           V_arr acc ! i + potential_contribution (x ! i) (y ! i) c"
    and "mask_arr (field_step x y acc c) ! i =
           (mask_arr acc ! i \<and> coulomb_r (x ! i) (y ! i) c > 0.22)"
  using assms
  by (cases c; simp add: field_step_def Let_def field_contribution_def
      potential_contribution_def coulomb_r_def euclid_dist_def)+

lemma field_loop_nth:
  assumes "length x = length y" "i < length x"
  shows "Ex_arr (field_loop x y cs) ! i = (\<Sum>c\<leftarrow>cs. fst (field_contribution (x ! i) (y ! i) c))"
    and "Ey_arr (field_loop x y cs) ! i = (\<Sum>c\<leftarrow>cs. snd (field_contribution (x ! i) (y ! i) c))"
    and "V_arr (field_loop x y cs) ! i = (\<Sum>c\<leftarrow>cs. potential_contribution (x ! i) (y ! i) c)"
    and "mask_arr (field_loop x y cs) ! i = (\<forall>c\<in>set cs. coulomb_r (x ! i) (y ! i) c > 0.22)"
proof (induction cs rule: rev_induct)
  case Nil
  {
    case 1 show ?case using assms
      by (simp add: field_loop_def field_init_def zeros_like_def)
  next
    case 2 show ?case using assms
      by (simp add: field_loop_def field_init_def zeros_like_def)
  next
    case 3 show ?case using assms
      by (simp add: field_loop_def field_init_def zeros_like_def)
  next
    case 4 show ?case using assms
      by (simp add: field_loop_def field_init_def ones_like_def)
  }
next
  case (snoc c cs)
  note len = field_loop_length [OF assms(1), of cs]
  note st = field_step_nth [OF assms(1) _ _ _ _ assms(2), of "field_loop x y cs" c]
  {
    case 1 show ?case using snoc(1) st(1) len by (simp add: field_loop_snoc)
  next
    case 2 show ?case using snoc(2) st(2) len by (simp add: field_loop_snoc)
  next
    case 3 show ?case using snoc(3) st(3) len by (simp add: field_loop_snoc)
  next
    case 4 show ?case using snoc(4) st(4) len by (auto simp add: field_loop_snoc)
  }
qed

text \<open>
  Claim C1. On a grid (coordinate arrays \<open>x\<close>, \<open>y\<close> of one shape) and any charge list, the
  data of the three outputs at grid point \<open>i\<close> are the sums, over all charges, of the
  single-charge contributions of the specification: with \<open>(dx, dy) = (x - cx, y - cy)\<close>
  and \<open>r = sqrt(dx\<^sup>2 + dy\<^sup>2) + 1e-20\<close>, \<open>q\<cdot>dx/r\<^sup>3\<close> into \<open>Ex\<close>, \<open>q\<cdot>dy/r\<^sup>3\<close> into \<open>Ey\<close> and \<open>q/r\<close>
  into \<open>V\<close>. Each output has one element per grid point.
\<close>

theorem compute_field_superposition:
  assumes "length x = length y" and "i < length x"
  shows "data (out_Ex (compute_field x y cs)) ! i =
           (\<Sum>c\<leftarrow>cs. fst (field_contribution (x ! i) (y ! i) c)) \<and>
         data (out_Ey (compute_field x y cs)) ! i =
           (\<Sum>c\<leftarrow>cs. snd (field_contribution (x ! i) (y ! i) c)) \<and>
         data (out_V (compute_field x y cs)) ! i =
           (\<Sum>c\<leftarrow>cs. potential_contribution (x ! i) (y ! i) c) \<and>
         length (data (out_Ex (compute_field x y cs))) = length x \<and>
         length (data (out_Ey (compute_field x y cs))) = length x \<and>
         length (data (out_V (compute_field x y cs))) = length x"
  using field_loop_nth(1,2,3) [OF assms, of cs] field_loop_length [OF assms(1), of cs]
  by (simp add: compute_field_def out_Ex_def out_Ey_def out_V_def masked_where_def Let_def)

theorem compute_field_superposition_witness:
  "length [3 :: real] = length [4 :: real] \<and> 0 < length [3 :: real] \<and>
   data (out_Ex (compute_field [3] [4] [(1, 0, 0), (- 1, 3, 0)])) ! 0 =
     fst (field_contribution 3 4 (1, 0, 0)) + fst (field_contribution 3 4 (- 1, 3, 0)) \<and>
   data (out_Ey (compute_field [3] [4] [(1, 0, 0), (- 1, 3, 0)])) ! 0 =
     snd (field_contribution 3 4 (1, 0, 0)) + snd (field_contribution 3 4 (- 1, 3, 0)) \<and>
   data (out_V (compute_field [3] [4] [(1, 0, 0), (- 1, 3, 0)])) ! 0 =
     potential_contribution 3 4 (1, 0, 0) + potential_contribution 3 4 (- 1, 3, 0)"
  using compute_field_superposition [of "[3]" "[4]" 0 "[(1, 0, 0), (- 1, 3, 0)]"]
  by simp

text \<open>
  Claim C7. On an empty charge list and a grid (two coordinate arrays of one shape),
  \<open>compute_field\<close> returns \<open>Ex\<close>, \<open>Ey\<close> and \<open>V\<close> with data zero at every grid point and with
  no grid point masked: every point is valid in each of the three outputs. Nothing is
  raised: with no charge the body runs only \<open>zeros_like\<close>, \<open>ones_like\<close> and
  \<open>masked_where\<close> on arrays of one shape.
\<close>

theorem compute_field_empty:
  assumes "length x = length y"
  shows "compute_field x y [] =
           (\<lparr>data = replicate (length x) 0, masked = replicate (length x) False\<rparr>,
            \<lparr>data = replicate (length x) 0, masked = replicate (length x) False\<rparr>,
            \<lparr>data = replicate (length x) 0, masked = replicate (length x) False\<rparr>)"
  using assms
  by (simp add: compute_field_def field_loop_def field_init_def zeros_like_def ones_like_def
      masked_where_def)

theorem compute_field_empty_witness:
  "length [- 10, 0, 10 :: real] = length [5, 5, 5 :: real] \<and>
   compute_field [- 10, 0, 10] [5, 5, 5] [] =
     (\<lparr>data = [0, 0, 0], masked = [False, False, False]\<rparr>,
      \<lparr>data = [0, 0, 0], masked = [False, False, False]\<rparr>,
      \<lparr>data = [0, 0, 0], masked = [False, False, False]\<rparr>)"
  using compute_field_empty [of "[- 10, 0, 10]" "[5, 5, 5]"]
  by (simp add: numeral_3_eq_3)

text \<open>
  Claim C8. On a grid, the whole output of \<open>compute_field\<close> (the data and the mask of
  \<open>Ex\<close>, \<open>Ey\<close> and \<open>V\<close>) is the same for any two charge lists that are permutations of
  each other. The equality is exact, over the real arithmetic of the embedding.
\<close>

theorem compute_field_permutation:
  assumes "length x = length y" and "mset cs = mset cs'"
  shows "compute_field x y cs = compute_field x y cs'"
proof -
  have sum_eq: "(\<Sum>c\<leftarrow>cs. f c) = (\<Sum>c\<leftarrow>cs'. f c)" for f :: "charge \<Rightarrow> real"
  proof -
    have "mset (map f cs) = mset (map f cs')"
      using assms(2) by (metis mset_map)
    then show ?thesis
      by (metis sum_mset_sum_list)
  qed
  have set_eq: "set cs = set cs'"
    using assms(2) by (rule mset_eq_setD)
  note l1 = field_loop_length [OF assms(1), of cs]
  note l2 = field_loop_length [OF assms(1), of cs']
  have "Ex_arr (field_loop x y cs) = Ex_arr (field_loop x y cs')"
    using l1 l2 by (intro nth_equalityI) (simp_all add: field_loop_nth(1) [OF assms(1)] sum_eq)
  moreover have "Ey_arr (field_loop x y cs) = Ey_arr (field_loop x y cs')"
    using l1 l2 by (intro nth_equalityI) (simp_all add: field_loop_nth(2) [OF assms(1)] sum_eq)
  moreover have "V_arr (field_loop x y cs) = V_arr (field_loop x y cs')"
    using l1 l2 by (intro nth_equalityI) (simp_all add: field_loop_nth(3) [OF assms(1)] sum_eq)
  moreover have "mask_arr (field_loop x y cs) = mask_arr (field_loop x y cs')"
    using l1 l2 by (intro nth_equalityI) (simp_all add: field_loop_nth(4) [OF assms(1)] set_eq)
  ultimately show ?thesis
    by (simp add: compute_field_def Let_def)
qed

theorem compute_field_permutation_witness:
  "length [1 :: real, 5] = length [2 :: real, 7] \<and>
   mset [(1, 0, 0), (- 1, 2, 0), (3, 0, 1) :: charge] =
     mset [(3, 0, 1), (1, 0, 0), (- 1, 2, 0) :: charge] \<and>
   compute_field [1, 5] [2, 7] [(1, 0, 0), (- 1, 2, 0), (3, 0, 1)] =
     compute_field [1, 5] [2, 7] [(3, 0, 1), (1, 0, 0), (- 1, 2, 0)]"
proof -
  have m: "mset [(1, 0, 0), (- 1, 2, 0), (3, 0, 1) :: charge] =
           mset [(3, 0, 1), (1, 0, 0), (- 1, 2, 0) :: charge]"
    by simp
  show ?thesis
    using m compute_field_permutation [OF _ m, of "[1, 5]" "[2, 7]"] by simp
qed

section \<open>Properties of the seed loop and of \<open>plot_field\<close>\<close>

lemma charges_plot_field: "charges (plot_field st) = charges st"
  by (simp add: plot_field_def Let_def)

lemma py_int_abs: "py_int (\<bar>m\<bar> * 16) = \<lfloor>16 * \<bar>m\<bar>\<rfloor>"
  by (simp add: py_int_def mult.commute)

lemma seed_append_foldl:
  "foldl (seed_append cx cy n) sp is =
     sp @ map (\<lambda>i. (cx + 0.35 * cos (2 * pi * real_of_int i / real_of_int n),
                     cy + 0.35 * sin (2 * pi * real_of_int i / real_of_int n))) is"
  by (induction "is" arbitrary: sp) (simp_all add: seed_append_def Let_def)

lemma seed_charge_eq: "seed_charge sp c = sp @ seeds_of_charge c"
proof (cases c)
  case (fields m cx cy)
  have nn: "real_of_int (int (nat \<lfloor>16 * \<bar>m\<bar>\<rfloor>)) = real_of_int \<lfloor>16 * \<bar>m\<bar>\<rfloor>"
    by simp
  show ?thesis
    unfolding fields seed_charge_def seeds_of_charge_def Let_def py_int_abs fst_conv snd_conv
      seed_append_foldl py_range_def
    by (simp add: o_def)
qed

lemma start_points_foldl: "foldl seed_charge sp cs = sp @ concat (map seeds_of_charge cs)"
  by (induction cs arbitrary: sp) (simp_all add: seed_charge_eq)

text \<open>
  Claim C6. The seed list is, charge after charge, the seeds of the specification: for a
  charge of magnitude \<open>m\<close> at \<open>(cx, cy)\<close> exactly \<open>floor(16 \<times> |m|)\<close> points, the \<open>i\<close>-th at angle
  \<open>2\<pi>\<cdot>i/n\<close> on the circle of radius 0.35 around \<open>(cx, cy)\<close>. A charge of magnitude 0
  contributes none. With no charges the seed list is empty and \<open>plot_field\<close> draws no
  streamplot: the figure holds only the contours and the heat map, as far as switched on.
\<close>

theorem start_points_spec:
  "start_points cs = concat (map seeds_of_charge cs) \<and>
   length (seeds_of_charge (m, cx, cy)) = nat \<lfloor>16 * \<bar>m\<bar>\<rfloor> \<and>
   seeds_of_charge (m, cx, cy) =
     map (\<lambda>i. (cx + 0.35 * cos (2 * pi * real i / real (nat \<lfloor>16 * \<bar>m\<bar>\<rfloor>)),
               cy + 0.35 * sin (2 * pi * real i / real (nat \<lfloor>16 * \<bar>m\<bar>\<rfloor>))))
       [0..<nat \<lfloor>16 * \<bar>m\<bar>\<rfloor>] \<and>
   seeds_of_charge (0, cx, cy) = [] \<and>
   start_points [] = [] \<and>
   figure (plot_field (st\<lparr>charges := []\<rparr>)) =
     (if show_equipotential_lines st then [Contour] else []) @
     (if show_equipotential_map st then [Imshow, Colorbar] else [])"
  by (simp add: start_points_def start_points_foldl seeds_of_charge_def plot_field_def Let_def)

section \<open>Properties of the event handlers\<close>

lemma scan_no_action:
  assumes "button e \<noteq> 3" and "button e \<noteq> 1 \<or> key e \<noteq> Some ''shift''"
  shows "scan e i cs = NoHit"
  using assms by (induction cs arbitrary: i) (auto split: prod.splits)

lemma scan_delete_first:
  assumes "button e = 3" and "k < length cs" and "near_click e (cs ! k)"
    and "\<forall>j<k. \<not> near_click e (cs ! j)"
  shows "scan e i cs = Delete (i + k)"
  using assms(2-)
proof (induction cs arbitrary: i k)
  case Nil
  then show ?case by simp
next
  case (Cons c cs)
  obtain q cx cy where c: "c = (q, cx, cy)" by (cases c)
  show ?case
  proof (cases k)
    case 0
    with Cons.prems c assms(1) show ?thesis
      by (simp add: near_click_def)
  next
    case (Suc k')
    have "\<not> near_click e c"
      using Cons.prems(3) Suc by auto
    moreover have "scan e (Suc i) cs = Delete (Suc i + k')"
    proof (rule Cons.IH)
      show "k' < length cs" using Cons.prems(1) Suc by simp
      show "near_click e (cs ! k')" using Cons.prems(2) Suc by simp
      show "\<forall>j<k'. \<not> near_click e (cs ! j)"
      proof (intro allI impI)
        fix j assume "j < k'"
        then have "Suc j < k" using Suc by simp
        with Cons.prems(3) have "\<not> near_click e ((c # cs) ! Suc j)" by blast
        then show "\<not> near_click e (cs ! j)" by simp
      qed
    qed
    ultimately show ?thesis
      using c Suc by (simp add: near_click_def)
  qed
qed

lemma first_near_index:
  assumes "\<exists>c \<in> set cs. near_click e c"
  shows "\<exists>k<length cs. near_click e (cs ! k) \<and> (\<forall>j<k. \<not> near_click e (cs ! j))"
proof -
  define P where "P k \<longleftrightarrow> k < length cs \<and> near_click e (cs ! k)" for k
  from assms obtain k0 where "k0 < length cs" and "near_click e (cs ! k0)"
    by (metis in_set_conv_nth)
  then have "P k0"
    unfolding P_def by simp
  then have "P (LEAST k. P k)" by (rule LeastI)
  moreover have "\<forall>j<(LEAST k. P k). \<not> near_click e (cs ! j)"
  proof (intro allI impI)
    fix j assume j: "j < (LEAST k. P k)"
    then have "\<not> P j" by (rule not_less_Least)
    moreover have "j < length cs"
      using j \<open>P (LEAST k. P k)\<close> unfolding P_def by simp
    ultimately show "\<not> near_click e (cs ! j)" unfolding P_def by simp
  qed
  ultimately show ?thesis unfolding P_def by blast
qed

text \<open>
  Claim C3, as amended. A primary click inside the axes, within 0.3 of some existing
  charge, with no modifier held (the event's key is not \<open>'shift'\<close>), appends a new charge
  of magnitude \<open>+1\<close> at the click position, leaves the existing charges as they are, and
  re-renders: the search loop takes no branch, and the code goes on to the add branch.
\<close>

theorem onclick_primary_near_adds:
  assumes "inaxes e" and "button e = 1" and "key e \<noteq> Some ''shift''"
    and "\<exists>c \<in> set (charges st). near_click e c"
  shows "onclick new_q e st =
           Inr (plot_field (st\<lparr>charges := charges st @ [(1, xdata e, ydata e)]\<rparr>))"
proof -
  have "scan e 0 (charges st) = NoHit"
    using assms(2,3) by (intro scan_no_action) simp_all
  then show ?thesis
    using assms(1,2) by (simp add: onclick_def)
qed

lemma hypot_zero: "hypot a 0 = \<bar>a\<bar>"
  by (simp add: hypot_def)

theorem onclick_primary_near_adds_witness:
  "inaxes \<lparr>inaxes = True, xdata = 0.1, ydata = 0, button = 1, key = None\<rparr> \<and>
   button \<lparr>inaxes = True, xdata = 0.1, ydata = 0, button = 1, key = None\<rparr> = 1 \<and>
   key \<lparr>inaxes = True, xdata = 0.1, ydata = 0, button = 1, key = None\<rparr> \<noteq> Some ''shift'' \<and>
   near_click \<lparr>inaxes = True, xdata = 0.1, ydata = 0, button = 1, key = None\<rparr> (1, 0, 0) \<and>
   onclick None \<lparr>inaxes = True, xdata = 0.1, ydata = 0, button = 1, key = None\<rparr>
       \<lparr>charges = [(1, 0, 0)], show_field_lines = True, show_equipotential_lines = True,
        show_equipotential_map = False, figure = [], renders = 0, saved = []\<rparr> =
     Inr (plot_field
       \<lparr>charges = [(1, 0, 0), (1, 0.1, 0)], show_field_lines = True,
        show_equipotential_lines = True, show_equipotential_map = False, figure = [],
        renders = 0, saved = []\<rparr>)"
  using onclick_primary_near_adds
    [of "\<lparr>inaxes = True, xdata = 0.1, ydata = 0, button = 1, key = None\<rparr>"
        "\<lparr>charges = [(1, 0, 0)], show_field_lines = True, show_equipotential_lines = True,
          show_equipotential_map = False, figure = [], renders = 0, saved = []\<rparr>" None]
  by (simp add: near_click_def hypot_zero)

text \<open>
  Claim C3 as stated fails: a primary click at the position of the only charge, with no
  key held, leaves a charge list of two charges, not the list it started from.
\<close>

theorem onclick_primary_near_counterexample:
  "near_click \<lparr>inaxes = True, xdata = 0, ydata = 0, button = 1, key = None\<rparr> (1, 0, 0) \<and>
   charges_after
     (onclick None \<lparr>inaxes = True, xdata = 0, ydata = 0, button = 1, key = None\<rparr>
        \<lparr>charges = [(1, 0, 0)], show_field_lines = True, show_equipotential_lines = True,
         show_equipotential_map = False, figure = [], renders = 0, saved = []\<rparr>) =
     Some [(1, 0, 0), (1, 0, 0)] \<and>
   [(1, 0, 0), (1, 0, 0)] \<noteq>
     charges \<lparr>charges = [(1, 0, 0)], show_field_lines = True, show_equipotential_lines = True,
              show_equipotential_map = False, figure = [], renders = 0, saved = []\<rparr>"
  by (simp add: near_click_def hypot_zero onclick_def charges_after_def charges_plot_field)

text \<open>
  Claim C5. A secondary click inside the axes, within 0.3 of at least one charge,
  removes exactly the charge of lowest index within the radius (whether or not a later
  charge is closer): the new list is the old one without position \<open>k\<close>, all other charges
  and their order unchanged; then the figure is redrawn.
\<close>

theorem onclick_secondary_removes_first:
  assumes "inaxes e" and "button e = 3" and "\<exists>c \<in> set (charges st). near_click e c"
  shows "\<exists>k<length (charges st).
           near_click e (charges st ! k) \<and>
           (\<forall>j<k. \<not> near_click e (charges st ! j)) \<and>
           onclick new_q e st =
             Inr (plot_field (st\<lparr>charges := take k (charges st) @ drop (Suc k) (charges st)\<rparr>))"
proof -
  from first_near_index [OF assms(3)] obtain k where k: "k < length (charges st)"
    and near: "near_click e (charges st ! k)"
    and first: "\<forall>j<k. \<not> near_click e (charges st ! j)"
    by blast
  have "scan e 0 (charges st) = Delete (0 + k)"
    using assms(2) k near first by (rule scan_delete_first)
  then have "onclick new_q e st =
      Inr (plot_field (st\<lparr>charges := take k (charges st) @ drop (Suc k) (charges st)\<rparr>))"
    using assms(1) by (simp add: onclick_def del_at_def)
  with k near first show ?thesis by blast
qed

theorem onclick_secondary_removes_first_witness:
  "inaxes \<lparr>inaxes = True, xdata = 0.1, ydata = 0, button = 3, key = None\<rparr> \<and>
   button \<lparr>inaxes = True, xdata = 0.1, ydata = 0, button = 3, key = None\<rparr> = 3 \<and>
   near_click \<lparr>inaxes = True, xdata = 0.1, ydata = 0, button = 3, key = None\<rparr> (1, 0, 0) \<and>
   near_click \<lparr>inaxes = True, xdata = 0.1, ydata = 0, button = 3, key = None\<rparr> (- 1, 0.1, 0) \<and>
   onclick None \<lparr>inaxes = True, xdata = 0.1, ydata = 0, button = 3, key = None\<rparr>
       \<lparr>charges = [(1, 0, 0), (- 1, 0.1, 0), (2, 5, 0)], show_field_lines = True,
        show_equipotential_lines = True, show_equipotential_map = False, figure = [],
        renders = 0, saved = []\<rparr> =
     Inr (plot_field
       \<lparr>charges = [(- 1, 0.1, 0), (2, 5, 0)], show_field_lines = True,
        show_equipotential_lines = True, show_equipotential_map = False, figure = [],
        renders = 0, saved = []\<rparr>)"
proof -
  let ?e = "\<lparr>inaxes = True, xdata = 0.1, ydata = 0, button = 3, key = None\<rparr>"
  let ?st = "\<lparr>charges = [(1, 0, 0), (- 1, 0.1, 0), (2, 5, 0)], show_field_lines = True,
              show_equipotential_lines = True, show_equipotential_map = False, figure = [],
              renders = 0, saved = []\<rparr>"
  have n0: "near_click ?e (1, 0, 0)" and n1: "near_click ?e (- 1, 0.1, 0)"
    by (simp_all add: near_click_def hypot_zero)
  have hyp: "\<exists>c \<in> set (charges ?st). near_click ?e c"
    using n0 by simp
  from onclick_secondary_removes_first [OF _ _ hyp, of None]
  obtain k where first: "\<forall>j<k. \<not> near_click ?e (charges ?st ! j)"
    and res: "onclick None ?e ?st =
      Inr (plot_field (?st\<lparr>charges := take k (charges ?st) @ drop (Suc k) (charges ?st)\<rparr>))"
    by auto
  have "k = 0"
  proof (rule ccontr)
    assume "k \<noteq> 0"
    then have "0 < k" by simp
    with first have "\<not> near_click ?e (charges ?st ! 0)" by blast
    with n0 show False by simp
  qed
  with res n0 n1 show ?thesis by simp
qed

text \<open>
  Claim C9. For a valid index (one that Python's list indexing accepts; \<open>k\<close> is the
  position it denotes), the magnitude edit is all or nothing: when the prompt is
  cancelled the charge list is unchanged, and when a value \<open>v\<close> is confirmed the list
  changes at position \<open>k\<close> only, where the magnitude becomes \<open>v\<close> and the position
  \<open>(cx, cy)\<close> stays.
\<close>

theorem modify_charge_dialog_all_or_nothing:
  assumes "py_index (length (charges st)) index = Inr k"
  shows "k < length (charges st) \<and>
         charges_after (modify_charge_dialog None index st) = Some (charges st) \<and>
         charges_after (modify_charge_dialog (Some v) index st) =
           Some ((charges st)[k := (v, fst (snd (charges st ! k)), snd (snd (charges st ! k)))])"
proof -
  have "k < length (charges st)"
    using assms by (auto simp: py_index_def split: if_splits)
  then show ?thesis
    using assms by (simp add: modify_charge_dialog_def charges_after_def charges_plot_field)
qed

theorem modify_charge_dialog_all_or_nothing_witness:
  "py_index (length (charges
      \<lparr>charges = [(1, 0, 0), (- 1, 2, 3)], show_field_lines = True,
       show_equipotential_lines = True, show_equipotential_map = False, figure = [],
       renders = 0, saved = []\<rparr>)) 1 = Inr 1 \<and>
   charges_after (modify_charge_dialog None 1
      \<lparr>charges = [(1, 0, 0), (- 1, 2, 3)], show_field_lines = True,
       show_equipotential_lines = True, show_equipotential_map = False, figure = [],
       renders = 0, saved = []\<rparr>) = Some [(1, 0, 0), (- 1, 2, 3)] \<and>
   charges_after (modify_charge_dialog (Some 2.5) 1
      \<lparr>charges = [(1, 0, 0), (- 1, 2, 3)], show_field_lines = True,
       show_equipotential_lines = True, show_equipotential_map = False, figure = [],
       renders = 0, saved = []\<rparr>) = Some [(1, 0, 0), (2.5, 2, 3)]"
proof -
  let ?st = "\<lparr>charges = [(1, 0, 0), (- 1, 2, 3)], show_field_lines = True,
              show_equipotential_lines = True, show_equipotential_map = False, figure = [],
              renders = 0, saved = []\<rparr>"
  have idx: "py_index (length (charges ?st)) 1 = Inr 1"
    by (simp add: py_index_def)
  show ?thesis
    using idx modify_charge_dialog_all_or_nothing [OF idx, of "2.5"] by simp
qed

text \<open>
  Claim C10. A button press outside the axes, or with a button that is neither 1 nor 3,
  returns the state as it was: the charge list is unchanged and \<open>plot_field\<close> is not
  called (neither the figure nor the count of renders changes).
\<close>

theorem onclick_ignored:
  assumes "\<not> inaxes e \<or> (button e \<noteq> 1 \<and> button e \<noteq> 3)"
  shows "onclick new_q e st = Inr st"
proof (cases "inaxes e")
  case False
  then show ?thesis by (simp add: onclick_def)
next
  case True
  with assms have b: "button e \<noteq> 1" "button e \<noteq> 3" by simp_all
  then have "scan e 0 (charges st) = NoHit"
    by (intro scan_no_action) simp_all
  with True b show ?thesis by (simp add: onclick_def)
qed

theorem onclick_ignored_witness:
  "button \<lparr>inaxes = True, xdata = 0, ydata = 0, button = 2, key = None\<rparr> \<noteq> 1 \<and>
   button \<lparr>inaxes = True, xdata = 0, ydata = 0, button = 2, key = None\<rparr> \<noteq> 3 \<and>
   onclick None \<lparr>inaxes = True, xdata = 0, ydata = 0, button = 2, key = None\<rparr>
       \<lparr>charges = [(1, 0, 0)], show_field_lines = True, show_equipotential_lines = True,
        show_equipotential_map = False, figure = [], renders = 0, saved = []\<rparr> =
     Inr \<lparr>charges = [(1, 0, 0)], show_field_lines = True, show_equipotential_lines = True,
          show_equipotential_map = False, figure = [], renders = 0, saved = []\<rparr> \<and>
   \<not> inaxes \<lparr>inaxes = False, xdata = 0, ydata = 0, button = 1, key = None\<rparr> \<and>
   onclick None \<lparr>inaxes = False, xdata = 0, ydata = 0, button = 1, key = None\<rparr>
       \<lparr>charges = [(1, 0, 0)], show_field_lines = True, show_equipotential_lines = True,
        show_equipotential_map = False, figure = [], renders = 0, saved = []\<rparr> =
     Inr \<lparr>charges = [(1, 0, 0)], show_field_lines = True, show_equipotential_lines = True,
          show_equipotential_map = False, figure = [], renders = 0, saved = []\<rparr>"
  using onclick_ignored
      [of "\<lparr>inaxes = True, xdata = 0, ydata = 0, button = 2, key = None\<rparr>" None
          "\<lparr>charges = [(1, 0, 0)], show_field_lines = True, show_equipotential_lines = True,
            show_equipotential_map = False, figure = [], renders = 0, saved = []\<rparr>"]
    onclick_ignored
      [of "\<lparr>inaxes = False, xdata = 0, ydata = 0, button = 1, key = None\<rparr>" None
          "\<lparr>charges = [(1, 0, 0)], show_field_lines = True, show_equipotential_lines = True,
            show_equipotential_map = False, figure = [], renders = 0, saved = []\<rparr>"]
  by simp

text \<open>
  Claim C4 does not hold of the code. Pressing \<open>s\<close> binds the entered file name to the
  local \<open>fields_save\<close> and then reads \<open>field_save\<close>, a name that nothing binds: in every
  state and for every entered file name the handler raises NameError, before
  \<open>plt.savefig\<close> and the final \<open>plot_field()\<close> are reached. No image is exported.
\<close>

theorem onkeypress_s_raises:
  "onkeypress typed (e\<lparr>key := Some ''s''\<rparr>) st = Inl NameError"
  by (simp add: onkeypress_def load_name_def)

end
